theory Spec2Isabelle
  imports Main "HOL-Library.Multiset" "HOL-Library.Sublist"
begin

section \<open>Python values\<close>

text \<open>
  A Python \<open>str\<close> is a sequence of Unicode code points, and \<open>len\<close>, slicing, \<open>in\<close>
  and \<open>strip\<close> count code points. The source is Polish text with letters beyond ASCII,
  so a string is modelled as the list of its code points. \<open>ascii\<close> embeds an ASCII
  literal; other code points are written as numbers (\<open>0x142\<close> is the letter l with stroke).
\<close>

type_synonym ustr = "nat list"

definition ascii :: "string \<Rightarrow> ustr" where
  "ascii s = map of_char s"

text \<open>An exception caught by \<open>except Exception\<close> is identified with its message \<open>str(e)\<close>.\<close>

type_synonym exn = ustr

text \<open>
  \<open>str.strip()\<close> without arguments removes leading and trailing whitespace, which for
  \<open>str\<close> is the set of code points for which \<open>str.isspace\<close> holds.
\<close>

definition isspace :: "nat \<Rightarrow> bool" where
  "isspace c \<longleftrightarrow>
     (0x9 \<le> c \<and> c \<le> 0xD) \<or> (0x1C \<le> c \<and> c \<le> 0x20) \<or> c = 0x85 \<or> c = 0xA0 \<or>
     c = 0x1680 \<or> (0x2000 \<le> c \<and> c \<le> 0x200A) \<or> c = 0x2028 \<or> c = 0x2029 \<or>
     c = 0x202F \<or> c = 0x205F \<or> c = 0x3000"

definition strip :: "ustr \<Rightarrow> ustr" where
  "strip s = rev (dropWhile isspace (rev (dropWhile isspace s)))"

text \<open>\<open>contains s k\<close> is Python's \<open>k in s\<close> on strings: \<open>k\<close> occurs in \<open>s\<close> as a
  contiguous run.\<close>

fun contains :: "ustr \<Rightarrow> ustr \<Rightarrow> bool" where
  "contains [] k = (k = [])"
| "contains (c # s) k = (prefix k (c # s) \<or> contains s k)"

text \<open>
  \<open>str.lower()\<close> is the Unicode lower-casing of the Python runtime. The handlers below
  take it as the parameter \<open>lower\<close>, and every theorem holds for every such function.
  \<open>lower_latin\<close> is \<open>str.lower()\<close> on the blocks Basic Latin, Latin-1 Supplement and
  Latin Extended-A (code points below \<open>0x180\<close>, which cover Polish text); it is the
  instance at which the theorems are evaluated on concrete inputs.
\<close>

definition lower_cp :: "nat \<Rightarrow> nat list" where
  "lower_cp c =
     (if 0x41 \<le> c \<and> c \<le> 0x5A then [c + 32]
      else if 0xC0 \<le> c \<and> c \<le> 0xDE \<and> c \<noteq> 0xD7 then [c + 32]
      else if c = 0x130 then [0x69, 0x307]
      else if c = 0x178 then [0xFF]
      else if (0x100 \<le> c \<and> c \<le> 0x137 \<or> 0x14A \<le> c \<and> c \<le> 0x177) \<and> even c then [c + 1]
      else if (0x139 \<le> c \<and> c \<le> 0x148 \<or> 0x179 \<le> c \<and> c \<le> 0x17E) \<and> odd c then [c + 1]
      else [c])"

definition lower_latin :: "ustr \<Rightarrow> ustr" where
  "lower_latin s = concat (map lower_cp s)"

text \<open>
  \<open>list.sort(key=f, reverse=True)\<close> is stable: the list is reversed, sorted by a stable
  ascending sort, and reversed again, so elements with equal keys keep their original
  order.
\<close>

definition sort_reverse :: "('a \<Rightarrow> nat) \<Rightarrow> 'a list \<Rightarrow> 'a list" where
  "sort_reverse f xs = rev (sort_key f (rev xs))"


section \<open>schemas.py: the Recipe model\<close>

text \<open>
  The response dictionaries of both recipe handlers carry the keys \<open>title\<close>,
  \<open>ingredients\<close> and \<open>steps\<close>; \<open>recipe_dict\<close> is that dictionary, and the \<open>Recipe\<close>
  model extends it by \<open>source\<close> and \<open>image_filename\<close>.
\<close>

record recipe_dict =
  title :: ustr
  ingredients :: "ustr list"
  steps :: "ustr list"

record recipe = recipe_dict +
  source :: "ustr option"
  image_filename :: "ustr option"


section \<open>The persistence layer\<close>

text \<open>
  \<open>create_document\<close> belongs to the module \<open>database\<close>, which is not part of the
  sources. It is taken as a parameter: called with a collection name and a document in a
  datastore state, it either raises (\<open>Inl\<close>) or returns the new document's id (\<open>Inr\<close>),
  and leaves the datastore in a new state.
\<close>

datatype document =
  RecipeDocument recipe
| QueryDocument (query_ingredients: "ustr list") (matches: "ustr list")

type_synonym 'db create_document = "ustr \<Rightarrow> document \<Rightarrow> 'db \<Rightarrow> (exn + ustr) \<times> 'db"

text \<open>Two stores for evaluating the handlers: one that always raises, and one that
  appends to a list and returns the position as the id.\<close>

definition failing_store :: "(ustr \<times> document) list create_document" where
  "failing_store collection_name doc db = (Inl (ascii ''datastore unavailable''), db)"

definition list_store :: "(ustr \<times> document) list create_document" where
  "list_store collection_name doc db =
     (Inr (replicate (Suc (length db)) 0x31), db @ [(collection_name, doc)])"

datatype http_error = HTTPException (status_code: nat) (detail: ustr)


section \<open>main.py: the diagnostics handler\<close>

text \<open>
  The module global \<open>db\<close> is \<open>None\<close> or a database handle. Of the handle the handler
  reads the attribute \<open>name\<close>, which may be missing (\<open>hasattr\<close> is false), have a value,
  or raise on access, and calls \<open>list_collection_names()\<close>, which raises or returns the
  names.
\<close>

datatype 'a getattr = AttributeMissing | AttributeValue 'a | AttributeRaises exn

record database =
  name :: "ustr getattr"
  list_collection_names :: "exn + ustr list"

record status =
  backend :: ustr
  database :: ustr
  database_url :: "ustr option"
  database_name :: "ustr option"
  connection_status :: ustr
  collections :: "ustr list"

definition initial_response :: status where
  "initial_response =
     \<lparr> backend = [0x2705] @ ascii '' Running'',
       database = [0x274C] @ ascii '' Not Available'',
       database_url = None,
       database_name = None,
       connection_status = ascii ''Not Connected'',
       collections = [] \<rparr>"

text \<open>The inner \<open>try\<close> (lines 43 to 48).\<close>

definition enumerate_collections :: "database \<Rightarrow> status \<Rightarrow> status" where
  "enumerate_collections d response =
     (case list_collection_names d of
        Inr names \<Rightarrow>
          response\<lparr> collections := take 10 names,
                    database := [0x2705] @ ascii '' Connected & Working'' \<rparr>
      | Inl e \<Rightarrow>
          response\<lparr> database := [0x26A0, 0xFE0F] @ ascii ''  Connected but Error: '' @ take 50 e \<rparr>)"

text \<open>
  The body of the outer \<open>try\<close> (lines 38 to 50). It mutates the response dictionary as
  it goes, so it returns the exception it raised, if any, together with the response as
  it stands at that point.
\<close>

definition probe :: "database option \<Rightarrow> status \<Rightarrow> exn option \<times> status" where
  "probe db response =
     (case db of
        None \<Rightarrow>
          (None, response\<lparr> database := [0x26A0, 0xFE0F] @ ascii ''  Available but not initialized'' \<rparr>)
      | Some d \<Rightarrow>
          (let response = response\<lparr> database := [0x2705] @ ascii '' Available'',
                                     database_url := Some ([0x2705] @ ascii '' Configured'') \<rparr>
           in case name d of
                AttributeRaises e \<Rightarrow> (Some e, response)
              | AttributeValue n \<Rightarrow>
                  (None, enumerate_collections d
                     (response\<lparr> database_name := Some n,
                                connection_status := ascii ''Connected'' \<rparr>))
              | AttributeMissing \<Rightarrow>
                  (None, enumerate_collections d
                     (response\<lparr> database_name := Some ([0x2705] @ ascii '' Connected''),
                                connection_status := ascii ''Connected'' \<rparr>))))"

text \<open>\<open>os.getenv(k)\<close> in a condition: the variable is set and not empty.\<close>

definition getenv_truthy :: "(ustr \<rightharpoonup> ustr) \<Rightarrow> ustr \<Rightarrow> bool" where
  "getenv_truthy environ k = (case environ k of None \<Rightarrow> False | Some v \<Rightarrow> v \<noteq> [])"

definition set_flag :: "bool \<Rightarrow> ustr" where
  "set_flag b = (if b then [0x2705] @ ascii '' Set'' else [0x274C] @ ascii '' Not Set'')"

text \<open>The handler returns \<open>Inr\<close> of the response, or \<open>Inl\<close> of an exception it lets
  escape.\<close>

definition test_database :: "database option \<Rightarrow> (ustr \<rightharpoonup> ustr) \<Rightarrow> exn + status" where
  "test_database db environ =
     (let (raised, response) = probe db initial_response;
          response = (case raised of
                        None \<Rightarrow> response
                      | Some e \<Rightarrow> response\<lparr> database := [0x274C] @ ascii '' Error: '' @ take 50 e \<rparr>);
          response = response\<lparr> database_url :=
                       Some (set_flag (getenv_truthy environ (ascii ''DATABASE_URL''))) \<rparr>;
          response = response\<lparr> database_name :=
                       Some (set_flag (getenv_truthy environ (ascii ''DATABASE_NAME''))) \<rparr>
      in Inr response)"


section \<open>main.py: recipe from an image\<close>

record upload_file =
  filename :: "ustr option"
  content :: "nat list"

record image_response = recipe_dict +
  doc_id :: "ustr option"

definition pizza_title :: ustr where
  "pizza_title = ascii ''Domowa pizza margherita''"

definition pizza_ingredients :: "ustr list" where
  "pizza_ingredients =
     [ ascii ''Ciasto do pizzy'',
       ascii ''Sos pomidorowy'',
       ascii ''Mozzarella'',
       [0x15A] @ ascii ''wie'' @ [0x17C] @ ascii ''a bazylia'',
       ascii ''Oliwa z oliwek'',
       ascii ''S'' @ [0xF3] @ ascii ''l, pieprz'' ]"

definition pizza_steps :: "ustr list" where
  "pizza_steps =
     [ ascii ''Rozgrzej piekarnik do 250'' @ [0xB0] @ ascii ''C.'',
       ascii ''Rozwa'' @ [0x142] @ ascii ''kuj ciasto, posmaruj sosem.'',
       ascii ''Dodaj plastry mozzarelli i listki bazylii.'',
       ascii ''Skrop oliw'' @ [0x105] @ ascii '' i dopraw.'',
       ascii ''Piec 8'' @ [0x2013] @ ascii ''12 minut do zrumienienia.'' ]"

definition salad_title :: ustr where
  "salad_title = ascii ''Kolorowa sa'' @ [0x142] @ ascii ''atka warzywna''"

definition salad_ingredients :: "ustr list" where
  "salad_ingredients =
     [ ascii ''Miks sa'' @ [0x142] @ ascii ''at'',
       ascii ''Pomidor'',
       ascii ''Og'' @ [0xF3] @ ascii ''rek'',
       ascii ''Czerwona cebula'',
       ascii ''Oliwa, sok z cytryny'',
       ascii ''S'' @ [0xF3] @ ascii ''l, pieprz'' ]"

definition salad_steps :: "ustr list" where
  "salad_steps =
     [ ascii ''Warzywa pokr'' @ [0xF3] @ ascii ''j w kostk'' @ [0x119] @ ascii ''.'',
       ascii ''Wymieszaj z miksem sa'' @ [0x142] @ ascii ''at.'',
       ascii ''Skrop oliw'' @ [0x105] @ ascii '' i sokiem z cytryny, dopraw do smaku.'' ]"

definition generic_title :: ustr where
  "generic_title = ascii ''Prosty przepis na rozpoznane danie''"

definition generic_ingredients :: "ustr list" where
  "generic_ingredients =
     [ ascii ''Podstawowe warzywa (np. cebula, czosnek)'',
       ascii ''G'' @ [0x142, 0xF3] @ ascii ''wny sk'' @ [0x142] @ ascii ''adnik (np. kurczak/warzywa/makaron)'',
       ascii ''Przyprawy (s'' @ [0xF3] @ ascii ''l, pieprz, papryka)'',
       ascii ''T'' @ [0x142] @ ascii ''uszcz do sma'' @ [0x17C] @ ascii ''enia'',
       ascii ''Dodatek (np. ry'' @ [0x17C] @ ascii ''/makaron/pieczywo)'' ]"

definition generic_steps :: "ustr list" where
  "generic_steps =
     [ ascii ''Przygotuj sk'' @ [0x142] @ ascii ''adniki: pokr'' @ [0xF3] @ ascii ''j warzywa i g''
         @ [0x142, 0xF3] @ ascii ''wny sk'' @ [0x142] @ ascii ''adnik.'',
       ascii ''Podsma'' @ [0x17C] @ ascii '' na rozgrzanym t'' @ [0x142] @ ascii ''uszczu, dopraw do smaku.'',
       ascii ''Du'' @ [0x15B] @ ascii '' lub piecz do mi'' @ [0x119] @ ascii ''kko'' @ [0x15B] @ ascii ''ci.'',
       ascii ''Podawaj z wybranym dodatkiem.'' ]"

definition pizza_keywords :: "ustr list" where
  "pizza_keywords = [ascii ''pizza'', ascii ''margherita'']"

definition salad_keywords :: "ustr list" where
  "salad_keywords = [ascii ''salad'', ascii ''salat'', ascii ''sa'' @ [0x142] @ ascii ''at'']"

text \<open>The heuristic guess (lines 77 to 124): title, ingredients and steps chosen from the
  lower-cased filename.\<close>

definition guess :: "(ustr \<Rightarrow> ustr) \<Rightarrow> ustr \<Rightarrow> ustr \<times> ustr list \<times> ustr list" where
  "guess lower fname =
     (let name_lower = lower fname in
      if list_ex (\<lambda>k. contains name_lower k) pizza_keywords
        then (pizza_title, pizza_ingredients, pizza_steps)
      else if list_ex (\<lambda>k. contains name_lower k) salad_keywords
        then (salad_title, salad_ingredients, salad_steps)
      else (generic_title, generic_ingredients, generic_steps))"

definition recipe_from_image ::
  "(ustr \<Rightarrow> ustr) \<Rightarrow> 'db create_document \<Rightarrow> upload_file \<Rightarrow> 'db \<Rightarrow> (http_error + image_response) \<times> 'db"
where
  "recipe_from_image lower create_document file db =
     (case filename file of
        None \<Rightarrow> (Inl (HTTPException 400 (ascii ''No file uploaded'')), db)
      | Some fname \<Rightarrow>
          if fname = [] then (Inl (HTTPException 400 (ascii ''No file uploaded'')), db)
          else
            (let consumed = content file;
                 (t, ings, sts) = guess lower fname;
                 recipe = \<lparr> title = t, ingredients = ings, steps = sts,
                            source = Some (ascii ''image''), image_filename = Some fname \<rparr>;
                 (outcome, db') = create_document (ascii ''recipe'') (RecipeDocument recipe) db;
                 doc_id = (case outcome of Inr i \<Rightarrow> Some i | Inl e \<Rightarrow> None)
             in (Inr \<lparr> title = title recipe, ingredients = ingredients recipe,
                       steps = steps recipe, doc_id = doc_id \<rparr>, db')))"


section \<open>main.py: recipes from ingredients\<close>

definition spaghetti :: recipe where
  "spaghetti =
     \<lparr> title = ascii ''Spaghetti aglio e olio'',
       ingredients =
         [ ascii ''makaron'', ascii ''czosnek'', ascii ''oliwa z oliwek'', ascii ''pietruszka'',
           ascii ''papryczka chili'', ascii ''s'' @ [0xF3] @ ascii ''l'' ],
       steps =
         [ ascii ''Ugotuj makaron al dente.'',
           ascii ''Na oliwie podsma'' @ [0x17C] @ ascii '' czosnek i chili.'',
           ascii ''Wymieszaj z makaronem i posiekan'' @ [0x105] @ ascii '' pietruszk'' @ [0x105]
             @ ascii '', dopraw.'' ],
       source = Some (ascii ''seed''),
       image_filename = None \<rparr>"

definition salatka_grecka :: recipe where
  "salatka_grecka =
     \<lparr> title = ascii ''Sa'' @ [0x142] @ ascii ''atka grecka'',
       ingredients =
         [ ascii ''pomidor'', ascii ''og'' @ [0xF3] @ ascii ''rek'', ascii ''cebula czerwona'',
           ascii ''ser feta'', ascii ''oliwki'', ascii ''oliwa'', ascii ''oregano'',
           ascii ''s'' @ [0xF3] @ ascii ''l'' ],
       steps =
         [ ascii ''Warzywa pokr'' @ [0xF3] @ ascii ''j w kostk'' @ [0x119] @ ascii ''.'',
           ascii ''Dodaj fet'' @ [0x119] @ ascii '' i oliwki, skrop oliw'' @ [0x105]
             @ ascii '', posyp oregano.'',
           ascii ''Dopraw sol'' @ [0x105] @ ascii '' i delikatnie wymieszaj.'' ],
       source = Some (ascii ''seed''),
       image_filename = None \<rparr>"

definition kurczak_curry :: recipe where
  "kurczak_curry =
     \<lparr> title = ascii ''Kurczak curry'',
       ingredients =
         [ ascii ''kurczak'', ascii ''cebula'', ascii ''czosnek'', ascii ''imbir'',
           ascii ''pasta curry'', ascii ''mleczko kokosowe'', ascii ''ry'' @ [0x17C],
           ascii ''s'' @ [0xF3] @ ascii ''l'' ],
       steps =
         [ ascii ''Podsma'' @ [0x17C] @ ascii '' cebul'' @ [0x119] @ ascii '', czosnek i imbir.'',
           ascii ''Dodaj kurczaka i past'' @ [0x119] @ ascii '' curry, sma'' @ [0x17C]
             @ ascii '' chwil'' @ [0x119] @ ascii ''.'',
           ascii ''Wlej mleczko kokosowe i du'' @ [0x15B] @ ascii '' do mi'' @ [0x119]
             @ ascii ''kko'' @ [0x15B] @ ascii ''ci. Podawaj z ry'' @ [0x17C] @ ascii ''em.'' ],
       source = Some (ascii ''seed''),
       image_filename = None \<rparr>"

definition catalog :: "recipe list" where
  "catalog = [spaghetti, salatka_grecka, kurczak_curry]"

text \<open>Line 150: the stripped, lower-cased inputs whose stripped form is not empty.\<close>

definition normalise :: "(ustr \<Rightarrow> ustr) \<Rightarrow> ustr list \<Rightarrow> ustr list" where
  "normalise lower payload = map (\<lambda>i. lower (strip i)) (filter (\<lambda>i. strip i \<noteq> []) payload)"

text \<open>Lines 193 and 194: the overlap of the user's ingredients with one recipe.\<close>

definition overlap :: "(ustr \<Rightarrow> ustr) \<Rightarrow> ustr list \<Rightarrow> recipe \<Rightarrow> nat" where
  "overlap lower user_ings r =
     (let r_ings = map lower (ingredients r)
      in card (set user_ings \<inter> set r_ings))"

text \<open>The condition of the comprehension on line 198.\<close>

definition qualifies :: "ustr list \<Rightarrow> nat \<Rightarrow> bool" where
  "qualifies user_ings score \<longleftrightarrow>
     (length user_ings = 1 \<and> score \<ge> 1) \<or> (length user_ings > 1 \<and> score \<ge> 2)"

text \<open>Lines 191 to 201, with the catalog as an argument.\<close>

definition match_recipes :: "(ustr \<Rightarrow> ustr) \<Rightarrow> recipe list \<Rightarrow> ustr list \<Rightarrow> recipe list" where
  "match_recipes lower cat user_ings =
     (let scored = map (\<lambda>r. (overlap lower user_ings r, r)) cat;
          scored = sort_reverse fst scored;
          results = map snd (filter (\<lambda>(score, r). qualifies user_ings score) scored)
      in case scored of
           [] \<Rightarrow> results
         | (score, r) # rest \<Rightarrow> if results = [] then [r] else results)"

definition as_dict :: "recipe \<Rightarrow> recipe_dict" where
  "as_dict r = \<lparr> title = title r, ingredients = ingredients r, steps = steps r \<rparr>"

definition recipes_from_ingredients ::
  "(ustr \<Rightarrow> ustr) \<Rightarrow> 'db create_document \<Rightarrow> ustr list \<Rightarrow> 'db \<Rightarrow> (http_error + recipe_dict list) \<times> 'db"
where
  "recipes_from_ingredients lower create_document payload db =
     (let user_ings = normalise lower payload in
      if user_ings = []
        then (Inl (HTTPException 400
                (ascii ''Podaj co najmniej jeden sk'' @ [0x142] @ ascii ''adnik'')), db)
      else
        (let results = match_recipes lower catalog user_ings;
             (outcome, db') =
               create_document (ascii ''recipe_query'')
                 (QueryDocument user_ings (map title results)) db
         in (Inr (map as_dict results), db')))"

text \<open>What a response says about the recipe: its title, ingredients and steps.\<close>

definition recipe_content :: "'a recipe_dict_scheme \<Rightarrow> ustr \<times> ustr list \<times> ustr list" where
  "recipe_content r = (title r, ingredients r, steps r)"


text \<open>Two recipes that differ at most in the order of their ingredients.\<close>

definition reordered :: "recipe \<Rightarrow> recipe \<Rightarrow> bool" where
  "reordered r r' \<longleftrightarrow>
     title r = title r' \<and> mset (ingredients r) = mset (ingredients r') \<and> steps r = steps r'
     \<and> source r = source r' \<and> image_filename r = image_filename r'"



section \<open>Strings and the case analysis of the image handler\<close>

lemma contains_iff_sublist: "contains s k \<longleftrightarrow> sublist k s"
proof (induction s)
  case Nil
  show ?case by simp
next
  case (Cons c s)
  show ?case by (simp add: Cons.IH sublist_Cons_right)
qed

lemma recipe_from_image_no_name:
  "filename file = None \<or> filename file = Some [] \<Longrightarrow>
   recipe_from_image lower cd file db = (Inl (HTTPException 400 (ascii ''No file uploaded'')), db)"
  by (auto simp: recipe_from_image_def)

lemma recipe_from_image_named:
  assumes "filename file = Some fname" and "fname \<noteq> []"
  shows "fst (recipe_from_image lower cd file db) =
           Inr \<lparr> title = fst (guess lower fname),
                 ingredients = fst (snd (guess lower fname)),
                 steps = snd (snd (guess lower fname)),
                 doc_id = (case fst (cd (ascii ''recipe'')
                             (RecipeDocument
                                \<lparr> title = fst (guess lower fname),
                                  ingredients = fst (snd (guess lower fname)),
                                  steps = snd (snd (guess lower fname)),
                                  source = Some (ascii ''image''),
                                  image_filename = Some fname \<rparr>) db) of
                             Inr i \<Rightarrow> Some i | Inl e \<Rightarrow> None) \<rparr>"
  using assms by (simp add: recipe_from_image_def Let_def split: prod.splits)

lemma normalise_empty_iff:
  "normalise lower payload = [] \<longleftrightarrow> (\<forall>i\<in>set payload. strip i = [])"
  by (simp add: normalise_def filter_empty_conv)

text \<open>
  Claim C4. The ingredient matcher fails if and only if no ingredient remains after
  normalising, which is the case exactly when every input string is empty after
  stripping. The failure is an \<open>HTTPException\<close> with a 4xx status code, no recipe is
  returned, and the datastore is left as it was: \<open>create_document\<close> is not called.
\<close>

theorem ingredients_client_error_iff_blank:
  "((\<exists>e. fst (recipes_from_ingredients lower create_document payload db) = Inl e)
      \<longleftrightarrow> normalise lower payload = [])
   \<and> (normalise lower payload = [] \<longleftrightarrow> (\<forall>i\<in>set payload. strip i = []))
   \<and> (normalise lower payload = [] \<longrightarrow>
        (\<exists>code msg. recipes_from_ingredients lower create_document payload db
                       = (Inl (HTTPException code msg), db) \<and> 400 \<le> code \<and> code < 500))"
proof (intro conjI)
  show "(\<exists>e. fst (recipes_from_ingredients lower create_document payload db) = Inl e)
      \<longleftrightarrow> normalise lower payload = []"
    by (simp add: recipes_from_ingredients_def Let_def split: prod.splits)
  show "normalise lower payload = [] \<longleftrightarrow> (\<forall>i\<in>set payload. strip i = [])"
    by (rule normalise_empty_iff)
  show "normalise lower payload = [] \<longrightarrow>
        (\<exists>code msg. recipes_from_ingredients lower create_document payload db
                       = (Inl (HTTPException code msg), db) \<and> 400 \<le> code \<and> code < 500)"
    by (simp add: recipes_from_ingredients_def)
qed

text \<open>
  Claim C7. For every state of the datastore handle (absent, present, with or without
  a \<open>name\<close>, \<open>name\<close> raising, enumeration raising or succeeding) and every environment,
  the diagnostics handler returns a response and lets no exception escape, and the
  \<open>collections\<close> field has at most 10 entries.
\<close>

theorem diagnostics_never_raises:
  "\<exists>response. test_database db environ = Inr response \<and> length (collections response) \<le> 10"
  by (simp add: test_database_def probe_def enumerate_collections_def initial_response_def Let_def
        split: option.splits getattr.splits sum.splits prod.splits)

text \<open>
  Claim C8. Two uploads with the same filename get the same title, ingredients and
  steps (or the same error), whatever the bytes of the files, the persistence layer and
  the datastore state.
\<close>

theorem image_content_depends_on_filename_only:
  assumes "filename file1 = filename file2"
  shows "map_sum id recipe_content (fst (recipe_from_image lower create_document1 file1 db1))
       = map_sum id recipe_content (fst (recipe_from_image lower create_document2 file2 db2))"
proof (cases "filename file1 = None \<or> filename file1 = Some []")
  case True
  then show ?thesis using assms by (simp add: recipe_from_image_no_name)
next
  case False
  then obtain fname where f: "filename file1 = Some fname" "fname \<noteq> []" by auto
  then have g: "filename file2 = Some fname" using assms by simp
  show ?thesis
    by (simp add: recipe_from_image_named [OF f] recipe_from_image_named [OF g f(2)] recipe_content_def)
qed

text \<open>
  Claim C6. The outcome of \<open>create_document\<close> does not reach the caller: the
  from-ingredients result is the same for every persistence layer and datastore state;
  the from-image result has the same title, ingredients and steps (and is the same
  error, if any) for every persistence layer; and when the write raises, a request with a
  non-empty filename still succeeds, with a null id.
\<close>

theorem persistence_failure_swallowed:
  "fst (recipes_from_ingredients lower create_document1 payload db1)
     = fst (recipes_from_ingredients lower create_document2 payload db2)
   \<and> map_sum id recipe_content (fst (recipe_from_image lower create_document1 file db1))
     = map_sum id recipe_content (fst (recipe_from_image lower create_document2 file db2))
   \<and> (\<forall>fname. filename file = Some fname \<and> fname \<noteq> [] \<and>
         (\<forall>k d. isl (fst (create_document1 k d db1))) \<longrightarrow>
         (\<exists>r. fst (recipe_from_image lower create_document1 file db1) = Inr r \<and> doc_id r = None))"
proof (intro conjI allI impI)
  show "fst (recipes_from_ingredients lower create_document1 payload db1)
     = fst (recipes_from_ingredients lower create_document2 payload db2)"
    by (simp add: recipes_from_ingredients_def Let_def split: prod.splits)
next
  show "map_sum id recipe_content (fst (recipe_from_image lower create_document1 file db1))
     = map_sum id recipe_content (fst (recipe_from_image lower create_document2 file db2))"
  proof (cases "filename file = None \<or> filename file = Some []")
    case True
    then show ?thesis by (simp add: recipe_from_image_no_name)
  next
    case False
    then obtain fname where f: "filename file = Some fname" "fname \<noteq> []" by auto
    show ?thesis by (simp add: recipe_from_image_named [OF f] recipe_content_def)
  qed
next
  fix fname
  assume a: "filename file = Some fname \<and> fname \<noteq> [] \<and> (\<forall>k d. isl (fst (create_document1 k d db1)))"
  then have f: "filename file = Some fname" "fname \<noteq> []" by auto
  from a have "\<And>k d. isl (fst (create_document1 k d db1))" by blast
  then have n: "\<And>k d. (case fst (create_document1 k d db1) of Inr i \<Rightarrow> Some i | Inl e \<Rightarrow> None) = None"
    by (metis isl_def sum.case(1))
  show "\<exists>r. fst (recipe_from_image lower create_document1 file db1) = Inr r \<and> doc_id r = None"
    by (simp add: recipe_from_image_named [OF f] n)
qed

lemma pizza_template_sizes: "length pizza_ingredients = 6 \<and> length pizza_steps = 5"
  by (simp add: pizza_ingredients_def pizza_steps_def)

text \<open>
  Claim C3. For a non-empty filename the image resolver succeeds, and the title,
  ingredients and steps it returns are chosen from the lower-cased filename in priority
  order: the pizza template if it contains "pizza" or "margherita"; else the salad
  template if it contains "salad", "salat" or "sa\<open>0x142\<close>at"; else the generic template.
  \<open>sublist k s\<close> is the library's "k occurs in s as a contiguous run". The pizza template
  has 6 ingredients and 5 steps.
\<close>

theorem image_resolver_keyword_priority:
  assumes "filename file = Some fname" and "fname \<noteq> []"
  shows "(\<exists>r. fst (recipe_from_image lower create_document file db) = Inr r \<and>
           (title r, ingredients r, steps r) =
             (if sublist (ascii ''pizza'') (lower fname) \<or> sublist (ascii ''margherita'') (lower fname)
                then (pizza_title, pizza_ingredients, pizza_steps)
              else if sublist (ascii ''salad'') (lower fname) \<or> sublist (ascii ''salat'') (lower fname)
                      \<or> sublist (ascii ''sa'' @ [0x142] @ ascii ''at'') (lower fname)
                then (salad_title, salad_ingredients, salad_steps)
              else (generic_title, generic_ingredients, generic_steps)))
       \<and> length pizza_ingredients = 6 \<and> length pizza_steps = 5"
  by (simp add: recipe_from_image_named [OF assms] guess_def Let_def pizza_keywords_def
        salad_keywords_def contains_iff_sublist pizza_template_sizes)


text \<open>
  Claim C5. The image resolver fails, with the 400 error "No file uploaded", exactly
  when the filename is absent or empty, and returns a response for every other filename.
\<close>

theorem image_client_error_iff_no_filename: 
  "(fst (recipe_from_image lower create_document file db) = Inl (HTTPException 400 (ascii ''No file uploaded''))
      \<longleftrightarrow> filename file = None \<or> filename file = Some [])
   \<and> ((\<exists>e. fst (recipe_from_image lower create_document file db) = Inl e)
      \<longleftrightarrow> filename file = None \<or> filename file = Some [])
   \<and> ((\<exists>response. fst (recipe_from_image lower create_document file db) = Inr response)
      \<longleftrightarrow> \<not> (filename file = None \<or> filename file = Some []))"
  by (cases "filename file") (simp_all add: recipe_from_image_def Let_def split: prod.splits)


text \<open>Claim C3 at concrete inputs.\<close>

theorem image_resolver_keyword_priority_witness:
  "(\<exists>r. fst (recipe_from_image lower_latin list_store
             \<lparr> filename = Some (ascii ''Pizza_SALAD.jpg''), content = [0xFF, 0xD8] \<rparr> []) = Inr r
        \<and> (title r, ingredients r, steps r) = (pizza_title, pizza_ingredients, pizza_steps))
   \<and> (\<exists>r. fst (recipe_from_image lower_latin list_store
             \<lparr> filename = Some (ascii ''SA'' @ [0x141] @ ascii ''ATKA.png''), content = [] \<rparr> []) = Inr r
        \<and> (title r, ingredients r, steps r) = (salad_title, salad_ingredients, salad_steps))
   \<and> (\<exists>r. fst (recipe_from_image lower_latin failing_store
             \<lparr> filename = Some (ascii ''IMG_0001.JPG''), content = [1, 2, 3] \<rparr> []) = Inr r
        \<and> (title r, ingredients r, steps r) = (generic_title, generic_ingredients, generic_steps))"
  using image_resolver_keyword_priority [of "\<lparr> filename = Some (ascii ''Pizza_SALAD.jpg''), content = [0xFF, 0xD8] \<rparr>"
               "ascii ''Pizza_SALAD.jpg''" lower_latin list_store "[]"]
        image_resolver_keyword_priority [of "\<lparr> filename = Some (ascii ''SA'' @ [0x141] @ ascii ''ATKA.png''), content = [] \<rparr>"
               "ascii ''SA'' @ [0x141] @ ascii ''ATKA.png''" lower_latin list_store "[]"]
        image_resolver_keyword_priority [of "\<lparr> filename = Some (ascii ''IMG_0001.JPG''), content = [1, 2, 3] \<rparr>"
               "ascii ''IMG_0001.JPG''" lower_latin failing_store "[]"]
  by (simp add: contains_iff_sublist [symmetric] ascii_def lower_latin_def lower_cp_def)

text \<open>Claim C4 at concrete inputs.\<close>

theorem ingredients_client_error_iff_blank_witness:
  "strip (ascii ''  '') = [] \<and> strip [] = [] \<and> strip [0x9, 0xA0] = []
   \<and> (\<exists>code msg. recipes_from_ingredients lower_latin list_store [ascii ''  '', [], [0x9, 0xA0]] []
                    = (Inl (HTTPException code msg), []) \<and> 400 \<le> code \<and> code < 500)
   \<and> strip (ascii '' Makaron '') \<noteq> []
   \<and> \<not> (\<exists>e. fst (recipes_from_ingredients lower_latin list_store [ascii '' Makaron ''] []) = Inl e)"
proof -
  have blank: "strip (ascii ''  '') = [] \<and> strip [] = [] \<and> strip [0x9, 0xA0] = []"
    by (simp add: strip_def isspace_def ascii_def)
  have given: "strip (ascii '' Makaron '') \<noteq> []"
    by (simp add: strip_def isspace_def ascii_def)
  show ?thesis
    using blank given
      ingredients_client_error_iff_blank [of lower_latin list_store "[ascii ''  '', [], [0x9, 0xA0]]" "[]"]
      ingredients_client_error_iff_blank [of lower_latin list_store "[ascii '' Makaron '']" "[]"]
    by simp
qed

text \<open>Claim C5 at concrete inputs.\<close>

theorem image_client_error_iff_no_filename_witness:
  "fst (recipe_from_image lower_latin list_store \<lparr> filename = None, content = [1] \<rparr> [])
     = Inl (HTTPException 400 (ascii ''No file uploaded''))
   \<and> fst (recipe_from_image lower_latin list_store \<lparr> filename = Some [], content = [1] \<rparr> [])
     = Inl (HTTPException 400 (ascii ''No file uploaded''))
   \<and> (\<exists>response. fst (recipe_from_image lower_latin list_store
          \<lparr> filename = Some (ascii ''IMG_0001.JPG''), content = [] \<rparr> []) = Inr response)"
  using image_client_error_iff_no_filename [of lower_latin list_store "\<lparr> filename = None, content = [1] \<rparr>" "[]"]
        image_client_error_iff_no_filename [of lower_latin list_store "\<lparr> filename = Some [], content = [1] \<rparr>" "[]"]
        image_client_error_iff_no_filename [of lower_latin list_store "\<lparr> filename = Some (ascii ''IMG_0001.JPG''), content = [] \<rparr>" "[]"]
  by (simp add: ascii_def)

text \<open>Claim C6 at concrete inputs.\<close>

theorem persistence_failure_swallowed_witness:
  "fst (recipes_from_ingredients lower_latin failing_store [ascii '' Makaron ''] [])
     = fst (recipes_from_ingredients lower_latin list_store [ascii '' Makaron ''] [])
   \<and> (\<forall>k d. isl (fst (failing_store k d [])))
   \<and> (\<exists>r. fst (recipe_from_image lower_latin failing_store
               \<lparr> filename = Some (ascii ''IMG_0001.JPG''), content = [] \<rparr> []) = Inr r
          \<and> doc_id r = None)"
proof -
  have fails: "\<forall>k d. isl (fst (failing_store k d []))"
    by (simp add: failing_store_def)
  have named: "ascii ''IMG_0001.JPG'' \<noteq> []"
    by (simp add: ascii_def)
  show ?thesis
    using fails named
      persistence_failure_swallowed [of lower_latin failing_store "[ascii '' Makaron '']" "[]" list_store "[]"
             "\<lparr> filename = Some (ascii ''IMG_0001.JPG''), content = [] \<rparr>"]
    by simp
qed

text \<open>Claim C7 at concrete inputs.\<close>

theorem diagnostics_never_raises_witness:
  "\<exists>response.
     test_database
       (Some \<lparr> name = AttributeValue (ascii ''recipes''),
               list_collection_names = Inr (replicate 12 (ascii ''recipe'')) \<rparr>)
       Map.empty = Inr response
     \<and> length (collections response) \<le> 10"
  using diagnostics_never_raises [of "Some \<lparr> name = AttributeValue (ascii ''recipes''),
               list_collection_names = Inr (replicate 12 (ascii ''recipe'')) \<rparr>" Map.empty]
  by simp

text \<open>Claim C8 at concrete inputs.\<close>

theorem image_content_depends_on_filename_only_witness:
  "map_sum id recipe_content
     (fst (recipe_from_image lower_latin list_store
        \<lparr> filename = Some (ascii ''IMG_0001.JPG''), content = [1, 2, 3] \<rparr> []))
   = map_sum id recipe_content
     (fst (recipe_from_image lower_latin failing_store
        \<lparr> filename = Some (ascii ''IMG_0001.JPG''), content = [] \<rparr> [(ascii ''recipe'', QueryDocument [] [])]))"
  using image_content_depends_on_filename_only [of "\<lparr> filename = Some (ascii ''IMG_0001.JPG''), content = [1, 2, 3] \<rparr>"
               "\<lparr> filename = Some (ascii ''IMG_0001.JPG''), content = [] \<rparr>"
               lower_latin list_store "[]" failing_store "[(ascii ''recipe'', QueryDocument [] [])]"]
  by simp

section \<open>The ingredient matcher\<close>

subsection \<open>The stable descending sort\<close>

lemma set_sort_reverse: "set (sort_reverse f xs) = set xs"
  by (simp add: sort_reverse_def)

lemma length_sort_reverse: "length (sort_reverse f xs) = length xs"
  by (simp add: sort_reverse_def)

lemma distinct_sort_reverse: "distinct (sort_reverse f xs) = distinct xs"
  by (simp add: sort_reverse_def)

lemma sorted_sort_reverse: "sorted_wrt (\<lambda>a b. f b \<le> f a) (sort_reverse f xs)"
proof -
  have "sorted (map f (sort_key f (rev xs)))"
    by (rule sorted_sort_key)
  then have "sorted_wrt (\<lambda>a b. f a \<le> f b) (sort_key f (rev xs))"
    by (simp add: sorted_wrt_map)
  then show ?thesis
    by (simp add: sort_reverse_def sorted_wrt_rev)
qed

lemma sort_reverse_Cons_max:
  assumes "sort_reverse f xs = y # ys" and "x \<in> set xs"
  shows "f x \<le> f y"
proof -
  have s: "sorted_wrt (\<lambda>a b. f b \<le> f a) (y # ys)"
    using sorted_sort_reverse [of f xs] assms(1) by simp
  have "x \<in> set (y # ys)"
    using assms set_sort_reverse [of f xs] by simp
  then show ?thesis using s by auto
qed

lemma insort_key_scored:
  "insort_key fst (g x, x) (map (\<lambda>r. (g r, r)) ys) = map (\<lambda>r. (g r, r)) (insort_key g x ys)"
  by (induction ys) simp_all

lemma sort_key_scored:
  "sort_key fst (map (\<lambda>r. (g r, r)) xs) = map (\<lambda>r. (g r, r)) (sort_key g xs)"
  by (induction xs) (simp_all add: insort_key_scored)

lemma sort_reverse_scored:
  "sort_reverse fst (map (\<lambda>r. (g r, r)) xs) = map (\<lambda>r. (g r, r)) (sort_reverse g xs)"
  by (simp add: sort_reverse_def rev_map sort_key_scored)

subsection \<open>The matcher in terms of the ranked catalog\<close>

lemma match_recipes_ranked:
  assumes "sort_reverse (overlap lower u) cat = ranked"
    and "filter (\<lambda>r. qualifies u (overlap lower u r)) ranked = kept"
  shows "match_recipes lower cat u =
           (case ranked of [] \<Rightarrow> [] | r # rest \<Rightarrow> if kept = [] then [r] else kept)"
proof -
  have f: "map snd (filter (\<lambda>(score, r). qualifies u score) (map (\<lambda>r. (overlap lower u r, r)) zs))
         = filter (\<lambda>r. qualifies u (overlap lower u r)) zs" for zs
    by (induction zs) simp_all
  have "match_recipes lower cat u =
          (case map (\<lambda>r. (overlap lower u r, r)) ranked of
             [] \<Rightarrow> kept
           | (score, r) # rest \<Rightarrow> if kept = [] then [r] else kept)"
    unfolding match_recipes_def Let_def sort_reverse_scored f assms ..
  also have "\<dots> = (case ranked of [] \<Rightarrow> [] | r # rest \<Rightarrow> if kept = [] then [r] else kept)"
    using assms(2) by (cases ranked) auto
  finally show ?thesis .
qed

lemma match_recipes_cases [case_names empty fallback kept]:
  obtains
    "cat = []" and "match_recipes lower cat u = []"
  | top rest where "sort_reverse (overlap lower u) cat = top # rest"
      and "filter (\<lambda>r. qualifies u (overlap lower u r)) (sort_reverse (overlap lower u) cat) = []"
      and "match_recipes lower cat u = [top]"
  | "filter (\<lambda>r. qualifies u (overlap lower u r)) (sort_reverse (overlap lower u) cat) \<noteq> []"
      and "match_recipes lower cat u
             = filter (\<lambda>r. qualifies u (overlap lower u r)) (sort_reverse (overlap lower u) cat)"
proof (cases "sort_reverse (overlap lower u) cat")
  case Nil
  then have "cat = []"
    using length_sort_reverse [of "overlap lower u" cat] by simp
  moreover have "match_recipes lower cat u = []"
    using match_recipes_ranked [OF Nil refl] by simp
  ultimately show ?thesis by (rule that(1))
next
  case (Cons top rest)
  define kept where "kept = filter (\<lambda>r. qualifies u (overlap lower u r)) (top # rest)"
  have k: "filter (\<lambda>r. qualifies u (overlap lower u r)) (sort_reverse (overlap lower u) cat) = kept"
    unfolding kept_def Cons ..
  have m: "match_recipes lower cat u = (if kept = [] then [top] else kept)"
    using match_recipes_ranked [OF Cons kept_def [symmetric]] by simp
  show ?thesis
  proof (cases "kept = []")
    case True
    show ?thesis
    proof (rule that(2))
      show "sort_reverse (overlap lower u) cat = top # rest" by (rule Cons)
      show "filter (\<lambda>r. qualifies u (overlap lower u r)) (sort_reverse (overlap lower u) cat) = []"
        unfolding k by (rule True)
      show "match_recipes lower cat u = [top]" using m True by simp
    qed
  next
    case False
    show ?thesis
    proof (rule that(3))
      show "filter (\<lambda>r. qualifies u (overlap lower u r)) (sort_reverse (overlap lower u) cat) \<noteq> []"
        unfolding k by (rule False)
      show "match_recipes lower cat u
             = filter (\<lambda>r. qualifies u (overlap lower u r)) (sort_reverse (overlap lower u) cat)"
        unfolding k using m False by simp
    qed
  qed
qed

lemma set_match_recipes: "set (match_recipes lower cat u) \<subseteq> set cat"
proof (cases lower cat u rule: match_recipes_cases)
  case empty
  then show ?thesis by simp
next
  case (fallback top rest)
  then have "top \<in> set cat"
    using set_sort_reverse [of "overlap lower u" cat] by auto
  then show ?thesis using fallback(3) by simp
next
  case kept
  show ?thesis unfolding kept(2) by (auto simp: set_sort_reverse)
qed

lemma distinct_match_recipes:
  assumes "distinct cat"
  shows "distinct (match_recipes lower cat u)"
proof (cases lower cat u rule: match_recipes_cases)
  case empty
  then show ?thesis by simp
next
  case (fallback top rest)
  then show ?thesis by simp
next
  case kept
  show ?thesis unfolding kept(2) using assms by (simp add: distinct_sort_reverse)
qed

lemma match_recipes_nonempty:
  assumes "cat \<noteq> []"
  shows "match_recipes lower cat u \<noteq> []"
proof (cases lower cat u rule: match_recipes_cases)
  case empty
  then show ?thesis using assms by simp
next
  case (fallback top rest)
  then show ?thesis by simp
next
  case kept
  then show ?thesis by simp
qed

lemma length_match_recipes: "length (match_recipes lower cat u) \<le> length cat"
proof (cases lower cat u rule: match_recipes_cases)
  case empty
  then show ?thesis by simp
next
  case (fallback top rest)
  have "length cat = Suc (length rest)"
    using fallback(1) length_sort_reverse [of "overlap lower u" cat] by simp
  then show ?thesis using fallback(3) by simp
next
  case kept
  have "length (filter (\<lambda>r. qualifies u (overlap lower u r)) (sort_reverse (overlap lower u) cat))
          \<le> length (sort_reverse (overlap lower u) cat)"
    by (rule length_filter_le)
  then show ?thesis unfolding kept(2) by (simp add: length_sort_reverse)
qed

lemma match_recipes_keeps:
  assumes "r \<in> set cat" and "qualifies u (overlap lower u r)"
  shows "r \<in> set (match_recipes lower cat u)"
proof -
  have m: "r \<in> set (filter (\<lambda>r. qualifies u (overlap lower u r)) (sort_reverse (overlap lower u) cat))"
    using assms by (simp add: set_sort_reverse)
  show ?thesis
  proof (cases lower cat u rule: match_recipes_cases)
    case empty
    then show ?thesis using assms(1) by simp
  next
    case (fallback top rest)
    then show ?thesis using m by simp
  next
    case kept
    show ?thesis unfolding kept(2) by (rule m)
  qed
qed

lemma sorted_match_recipes:
  "sorted_wrt (\<lambda>a b. overlap lower u b \<le> overlap lower u a) (match_recipes lower cat u)"
proof (cases lower cat u rule: match_recipes_cases)
  case empty
  then show ?thesis by simp
next
  case (fallback top rest)
  then show ?thesis by simp
next
  case kept
  show ?thesis unfolding kept(2) by (rule sorted_wrt_filter) (rule sorted_sort_reverse)
qed

lemma match_recipes_fallback:
  assumes "cat \<noteq> []" and "\<forall>r\<in>set cat. \<not> qualifies u (overlap lower u r)"
  shows "\<exists>top. match_recipes lower cat u = [top] \<and> top \<in> set cat
           \<and> (\<forall>r\<in>set cat. overlap lower u r \<le> overlap lower u top)"
proof (cases lower cat u rule: match_recipes_cases)
  case empty
  then show ?thesis using assms(1) by simp
next
  case (fallback top rest)
  have "top \<in> set cat"
    using fallback(1) set_sort_reverse [of "overlap lower u" cat] by auto
  moreover have "\<forall>r\<in>set cat. overlap lower u r \<le> overlap lower u top"
    using sort_reverse_Cons_max [OF fallback(1)] by blast
  ultimately show ?thesis using fallback(3) by blast
next
  case kept
  have "filter (\<lambda>r. qualifies u (overlap lower u r)) (sort_reverse (overlap lower u) cat) = []"
    using assms(2) by (simp add: filter_empty_conv set_sort_reverse)
  then show ?thesis using kept(1) by simp
qed

lemma recipes_from_ingredients_ok:
  assumes "normalise lower payload \<noteq> []"
  shows "fst (recipes_from_ingredients lower cd payload db)
           = Inr (map as_dict (match_recipes lower catalog (normalise lower payload)))"
  using assms by (simp add: recipes_from_ingredients_def Let_def split: prod.splits)

lemma recipes_from_ingredients_error:
  assumes "normalise lower payload = []"
  shows "\<exists>e. fst (recipes_from_ingredients lower cd payload db) = Inl e"
  using assms by (simp add: recipes_from_ingredients_def)

subsection \<open>The catalog\<close>

lemma catalog_titles: "distinct (map title catalog)"
  by (simp add: catalog_def spaghetti_def salatka_grecka_def kurczak_curry_def ascii_def)

lemma distinct_catalog: "distinct catalog"
  using catalog_titles by (simp add: distinct_map)

lemma inj_on_as_dict_catalog: "inj_on as_dict (set catalog)"
proof (rule inj_onI)
  fix r r' assume "r \<in> set catalog" "r' \<in> set catalog" "as_dict r = as_dict r'"
  then have "title r = title r'" by (simp add: as_dict_def)
  moreover have "inj_on title (set catalog)"
    using catalog_titles by (simp add: distinct_map)
  ultimately show "r = r'" using \<open>r \<in> set catalog\<close> \<open>r' \<in> set catalog\<close> by (auto dest: inj_onD)
qed

lemma qualifies_threshold:
  assumes "u \<noteq> []"
  shows "qualifies u score \<longleftrightarrow> (if length u = 1 then 1 else 2) \<le> score"
proof (cases "length u = 1")
  case True
  then show ?thesis by (simp add: qualifies_def)
next
  case False
  then have "length u > 1" using assms by (cases u) auto
  then show ?thesis using False by (simp add: qualifies_def)
qed

lemma match_recipes_only:
  assumes "r \<in> set cat" and "qualifies u (overlap lower u r)"
    and "x \<in> set (match_recipes lower cat u)"
  shows "qualifies u (overlap lower u x)"
proof (cases lower cat u rule: match_recipes_cases)
  case empty
  then show ?thesis using assms(3) by simp
next
  case (fallback top rest)
  have "r \<in> set (filter (\<lambda>r. qualifies u (overlap lower u r)) (sort_reverse (overlap lower u) cat))"
    using assms(1,2) by (simp add: set_sort_reverse)
  then show ?thesis using fallback(2) by simp
next
  case kept
  show ?thesis using assms(3) unfolding kept(2) by simp
qed

lemma as_dict_fields:
  "as_dict = (\<lambda>r. \<lparr> title = title r, ingredients = ingredients r, steps = steps r \<rparr>)"
  by (simp add: as_dict_def fun_eq_iff)

text \<open>
  Claim C10. A from-ingredients response is the list of the dictionaries of some
  catalog recipes, each dictionary carrying the title, the ingredients and the steps of
  its recipe as the catalog has them (nothing is lower-cased in the output). No recipe
  and no dictionary occurs twice, the response has between 1 and 3 elements, and the
  catalog is the three fixed records.
\<close>

theorem matcher_response_from_catalog:
  assumes "fst (recipes_from_ingredients lower create_document payload db) = Inr response"
  shows "\<exists>results.
           response = map (\<lambda>r. \<lparr> title = title r, ingredients = ingredients r, steps = steps r \<rparr>)
                        results
           \<and> set results \<subseteq> set catalog \<and> distinct results \<and> distinct response
           \<and> 1 \<le> length response \<and> length response \<le> 3
           \<and> catalog = [spaghetti, salatka_grecka, kurczak_curry]"
proof (intro exI conjI)
  let ?u = "normalise lower payload"
  let ?m = "match_recipes lower catalog ?u"
  have ne: "?u \<noteq> []"
    using assms recipes_from_ingredients_error [of lower payload create_document db] by auto
  then have r: "response = map as_dict ?m"
    using assms recipes_from_ingredients_ok [OF ne, of create_document db] by simp
  show s: "set ?m \<subseteq> set catalog" by (rule set_match_recipes)
  show d: "distinct ?m" using distinct_catalog by (rule distinct_match_recipes)
  have "inj_on as_dict (set ?m)"
    using inj_on_as_dict_catalog s by (rule inj_on_subset)
  then show "distinct response" using d r by (simp add: distinct_map)
  have "?m \<noteq> []" by (rule match_recipes_nonempty) (simp add: catalog_def)
  then show "1 \<le> length response" using r by (cases ?m) simp_all
  show "length response \<le> 3"
    using length_match_recipes [of lower catalog ?u] r by (simp add: catalog_def)
  show "response = map (\<lambda>r. \<lparr> title = title r, ingredients = ingredients r, steps = steps r \<rparr>) ?m"
    using r by (simp add: as_dict_fields)
  show "catalog = [spaghetti, salatka_grecka, kurczak_curry]" by (rule catalog_def)
qed


text \<open>
  Claim C1, amended. The threshold depends on the number of normalised input
  strings, counted with duplicates (\<open>len(user_ings)\<close>), not on the number of distinct
  ones: it is 1 when the normalised list \<open>u\<close> has exactly one entry and 2 when it has
  more. The response is the list of the dictionaries of catalog recipes \<open>results\<close>,
  each occurring once, ordered by overlap, descending. Every catalog recipe whose
  overlap reaches the threshold is among them; when some recipe reaches the threshold,
  only such recipes are; and when none does, \<open>results\<close> is a single recipe of highest
  overlap.
\<close>

theorem matcher_threshold_by_input_count:
  assumes "normalise lower payload = u" and "u \<noteq> []"
    and "threshold = (if length u = 1 then 1 else 2)"
  shows "\<exists>results.
           fst (recipes_from_ingredients lower create_document payload db)
             = Inr (map (\<lambda>r. \<lparr> title = title r, ingredients = ingredients r, steps = steps r \<rparr>)
                      results)
           \<and> set results \<subseteq> set catalog \<and> distinct results
           \<and> sorted_wrt (\<lambda>a b. overlap lower u b \<le> overlap lower u a) results
           \<and> (\<forall>r\<in>set catalog. threshold \<le> overlap lower u r \<longrightarrow> r \<in> set results)
           \<and> ((\<exists>r\<in>set catalog. threshold \<le> overlap lower u r) \<longrightarrow>
                (\<forall>r\<in>set results. threshold \<le> overlap lower u r))
           \<and> ((\<forall>r\<in>set catalog. overlap lower u r < threshold) \<longrightarrow>
                (\<exists>top. results = [top]
                   \<and> (\<forall>r\<in>set catalog. overlap lower u r \<le> overlap lower u top)))"
proof (intro exI conjI)
  let ?m = "match_recipes lower catalog u"
  have q: "\<And>s. qualifies u s \<longleftrightarrow> threshold \<le> s"
    using qualifies_threshold [OF assms(2)] assms(3) by simp
  have c: "catalog \<noteq> []" by (simp add: catalog_def)
  show "fst (recipes_from_ingredients lower create_document payload db)
          = Inr (map (\<lambda>r. \<lparr> title = title r, ingredients = ingredients r, steps = steps r \<rparr>) ?m)"
    using assms(1,2) recipes_from_ingredients_ok [of lower payload create_document db]
    by (simp add: as_dict_fields)
  show "set ?m \<subseteq> set catalog" by (rule set_match_recipes)
  show "distinct ?m" using distinct_catalog by (rule distinct_match_recipes)
  show "sorted_wrt (\<lambda>a b. overlap lower u b \<le> overlap lower u a) ?m"
    by (rule sorted_match_recipes)
  show "\<forall>r\<in>set catalog. threshold \<le> overlap lower u r \<longrightarrow> r \<in> set ?m"
  proof (intro ballI impI)
    fix r assume "r \<in> set catalog" and "threshold \<le> overlap lower u r"
    then show "r \<in> set ?m" by (simp add: match_recipes_keeps q)
  qed
  show "(\<exists>r\<in>set catalog. threshold \<le> overlap lower u r) \<longrightarrow>
                (\<forall>r\<in>set ?m. threshold \<le> overlap lower u r)"
  proof (intro ballI impI)
    fix x assume "\<exists>r\<in>set catalog. threshold \<le> overlap lower u r" and x: "x \<in> set ?m"
    then obtain r where "r \<in> set catalog" and "qualifies u (overlap lower u r)"
      unfolding q by (elim bexE)
    then have "qualifies u (overlap lower u x)" using x by (rule match_recipes_only)
    then show "threshold \<le> overlap lower u x" unfolding q .
  qed
  show "(\<forall>r\<in>set catalog. overlap lower u r < threshold) \<longrightarrow>
                (\<exists>top. ?m = [top]
                   \<and> (\<forall>r\<in>set catalog. overlap lower u r \<le> overlap lower u top))"
  proof
    assume "\<forall>r\<in>set catalog. overlap lower u r < threshold"
    then have "\<forall>r\<in>set catalog. \<not> qualifies u (overlap lower u r)"
      unfolding q by (simp add: not_le)
    from match_recipes_fallback [OF c this]
    obtain top where "?m = [top]"
      and "\<forall>r\<in>set catalog. overlap lower u r \<le> overlap lower u top"
      by (elim exE conjE)
    then show "\<exists>top. ?m = [top] \<and> (\<forall>r\<in>set catalog. overlap lower u r \<le> overlap lower u top)"
      by (intro exI conjI)
  qed
qed

subsection \<open>Reordering\<close>

lemma list_all2_insort_key:
  assumes "list_all2 R xs ys" and "R x y" and "\<And>a b. R a b \<Longrightarrow> f a = g b"
  shows "list_all2 R (insort_key f x xs) (insort_key g y ys)"
  using assms(1)
proof (induction rule: list_all2_induct)
  case Nil
  show ?case using assms(2) by simp
next
  case (Cons a as b bs)
  have "f a = g b" "f x = g y" using Cons.hyps(1) assms(2,3) by auto
  then show ?case using Cons assms(2) by simp
qed

lemma list_all2_sort_key:
  assumes "list_all2 R xs ys" and "\<And>a b. R a b \<Longrightarrow> f a = g b"
  shows "list_all2 R (sort_key f xs) (sort_key g ys)"
  using assms(1)
proof (induction rule: list_all2_induct)
  case Nil
  show ?case by simp
next
  case (Cons a as b bs)
  show ?case
    using list_all2_insort_key [OF Cons.IH Cons.hyps(1) assms(2)] by simp
qed

lemma list_all2_sort_reverse:
  assumes "list_all2 R xs ys" and "\<And>a b. R a b \<Longrightarrow> f a = g b"
  shows "list_all2 R (sort_reverse f xs) (sort_reverse g ys)"
proof -
  have "list_all2 R (rev xs) (rev ys)" using assms(1) by simp
  then have "list_all2 R (sort_key f (rev xs)) (sort_key g (rev ys))"
    using assms(2) by (rule list_all2_sort_key)
  then show ?thesis by (simp add: sort_reverse_def)
qed

lemma list_all2_filter:
  assumes "list_all2 R xs ys" and "\<And>a b. R a b \<Longrightarrow> P a = Q b"
  shows "list_all2 R (filter P xs) (filter Q ys)"
  using assms(1)
proof (induction rule: list_all2_induct)
  case Nil
  show ?case by simp
next
  case (Cons a as b bs)
  have "P a = Q b" using Cons.hyps(1) assms(2) by simp
  then show ?case using Cons by simp
qed

lemma overlap_reordered:
  assumes "set u = set u'" and "reordered r r'"
  shows "overlap lower u r = overlap lower u' r'"
proof -
  have "set (ingredients r) = set (ingredients r')"
    using assms(2) by (auto simp: reordered_def dest: mset_eq_setD)
  then show ?thesis using assms(1) by (simp add: overlap_def)
qed

lemma normalise_permuted:
  assumes "mset payload' = mset payload"
  shows "mset (normalise lower payload') = mset (normalise lower payload)"
  using assms by (simp add: normalise_def)

lemma match_recipes_reordered:
  assumes s: "set u = set u'" and l: "length u = length u'" and c: "list_all2 reordered cat cat'"
  shows "list_all2 reordered (match_recipes lower cat u) (match_recipes lower cat' u')"
proof -
  define ranked where "ranked = sort_reverse (overlap lower u) cat"
  define ranked' where "ranked' = sort_reverse (overlap lower u') cat'"
  define kept where "kept = filter (\<lambda>r. qualifies u (overlap lower u r)) ranked"
  define kept' where "kept' = filter (\<lambda>r. qualifies u' (overlap lower u' r)) ranked'"
  have o: "\<And>a b. reordered a b \<Longrightarrow> overlap lower u a = overlap lower u' b"
    using s by (rule overlap_reordered)
  have r: "list_all2 reordered ranked ranked'"
    unfolding ranked_def ranked'_def using c o by (rule list_all2_sort_reverse)
  have q: "\<And>a b. reordered a b \<Longrightarrow>
             qualifies u (overlap lower u a) = qualifies u' (overlap lower u' b)"
    using o l by (simp add: qualifies_def)
  have k: "list_all2 reordered kept kept'"
    unfolding kept_def kept'_def using r q by (rule list_all2_filter)
  have e: "kept = [] \<longleftrightarrow> kept' = []"
    using list_all2_lengthD [OF k] by auto
  have m: "match_recipes lower cat u =
             (case ranked of [] \<Rightarrow> [] | r # rest \<Rightarrow> if kept = [] then [r] else kept)"
    by (rule match_recipes_ranked) (simp_all add: ranked_def kept_def)
  have m': "match_recipes lower cat' u' =
             (case ranked' of [] \<Rightarrow> [] | r # rest \<Rightarrow> if kept' = [] then [r] else kept')"
    by (rule match_recipes_ranked) (simp_all add: ranked'_def kept'_def)
  show ?thesis
    unfolding m m' using r k e by (cases ranked; cases ranked') auto
qed

lemma reordered_refl: "list_all2 reordered cat cat"
  by (simp add: list_all2_refl reordered_def)

text \<open>
  Claim C9. Permuting the request's ingredient list and permuting the ingredient
  lists of the catalog's recipes does not change the selection: the recipes selected
  from the reordered catalog are, position by position, the reordered versions of the
  recipes selected from the original one. On the fixed catalog, a permuted request gets
  the same response.
\<close>

theorem matcher_invariant_under_reordering:
  assumes "mset payload' = mset payload" and "list_all2 reordered cat cat'"
  shows "list_all2 reordered
           (match_recipes lower cat (normalise lower payload))
           (match_recipes lower cat' (normalise lower payload'))
       \<and> fst (recipes_from_ingredients lower create_document payload db)
           = fst (recipes_from_ingredients lower create_document' payload' db')"
proof
  let ?u = "normalise lower payload" and ?u' = "normalise lower payload'"
  have p: "mset ?u' = mset ?u" using assms(1) by (rule normalise_permuted)
  have s: "set ?u = set ?u'" using p by (metis mset_eq_setD)
  have l: "length ?u = length ?u'" using p by (metis mset_eq_length)
  show "list_all2 reordered (match_recipes lower cat ?u) (match_recipes lower cat' ?u')"
    using s l assms(2) by (rule match_recipes_reordered)
  have "match_recipes lower catalog ?u = match_recipes lower catalog ?u'"
  proof -
    show ?thesis
      using s l by (simp add: match_recipes_def overlap_def qualifies_def)
  qed
  moreover have "?u = [] \<longleftrightarrow> ?u' = []" using l by auto
  ultimately show "fst (recipes_from_ingredients lower create_document payload db)
           = fst (recipes_from_ingredients lower create_document' payload' db')"
    by (simp add: recipes_from_ingredients_def Let_def split: prod.splits)
qed

subsection \<open>Evaluating the matcher on the catalog\<close>

lemma catalog_lower_latin:
  "map lower_latin (ingredients spaghetti) = ingredients spaghetti"
  "map lower_latin (ingredients salatka_grecka) = ingredients salatka_grecka"
  "map lower_latin (ingredients kurczak_curry) = ingredients kurczak_curry"
  by (simp_all add: spaghetti_def salatka_grecka_def kurczak_curry_def lower_latin_def
        lower_cp_def ascii_def)

lemma overlap_lower_latin:
  "overlap lower_latin u spaghetti = card (set u \<inter> set (ingredients spaghetti))"
  "overlap lower_latin u salatka_grecka = card (set u \<inter> set (ingredients salatka_grecka))"
  "overlap lower_latin u kurczak_curry = card (set u \<inter> set (ingredients kurczak_curry))"
  by (simp_all add: overlap_def catalog_lower_latin)

lemma normalise_examples:
  "normalise lower_latin [ascii '' Makaron ''] = [ascii ''makaron'']"
  "normalise lower_latin [ascii ''czosnek'', ascii ''czosnek''] = [ascii ''czosnek'', ascii ''czosnek'']"
  "normalise lower_latin [ascii ''xyz123''] = [ascii ''xyz123'']"
  "normalise lower_latin [ascii ''Pomidor'', ascii ''oliwki '', ascii ''OLIWA'']
     = [ascii ''pomidor'', ascii ''oliwki'', ascii ''oliwa'']"
  by (simp_all add: normalise_def strip_def isspace_def lower_latin_def lower_cp_def ascii_def)

lemma overlap_makaron:
  "overlap lower_latin [ascii ''makaron''] spaghetti = 1"
  "overlap lower_latin [ascii ''makaron''] salatka_grecka = 0"
  "overlap lower_latin [ascii ''makaron''] kurczak_curry = 0"
  unfolding overlap_lower_latin
  by (simp_all add: spaghetti_def salatka_grecka_def kurczak_curry_def ascii_def)

lemma overlap_czosnek:
  "overlap lower_latin [ascii ''czosnek'', ascii ''czosnek''] spaghetti = 1"
  "overlap lower_latin [ascii ''czosnek'', ascii ''czosnek''] salatka_grecka = 0"
  "overlap lower_latin [ascii ''czosnek'', ascii ''czosnek''] kurczak_curry = 1"
  unfolding overlap_lower_latin
  by (simp_all add: spaghetti_def salatka_grecka_def kurczak_curry_def ascii_def)


lemma overlap_pomidor:
  "overlap lower_latin [ascii ''pomidor'', ascii ''oliwki'', ascii ''oliwa''] spaghetti = 0"
  "overlap lower_latin [ascii ''pomidor'', ascii ''oliwki'', ascii ''oliwa''] salatka_grecka = 3"
  "overlap lower_latin [ascii ''pomidor'', ascii ''oliwki'', ascii ''oliwa''] kurczak_curry = 0"
  unfolding overlap_lower_latin
  by (simp_all add: spaghetti_def salatka_grecka_def kurczak_curry_def ascii_def)

lemma match_makaron:
  "match_recipes lower_latin catalog [ascii ''makaron''] = [spaghetti]"
  by (simp add: match_recipes_def sort_reverse_def catalog_def overlap_makaron qualifies_def)

lemma match_czosnek:
  "match_recipes lower_latin catalog [ascii ''czosnek'', ascii ''czosnek''] = [spaghetti]"
  by (simp add: match_recipes_def sort_reverse_def catalog_def overlap_czosnek qualifies_def)


lemma match_pomidor:
  "match_recipes lower_latin catalog [ascii ''pomidor'', ascii ''oliwki'', ascii ''oliwa'']
     = [salatka_grecka]"
  by (simp add: match_recipes_def sort_reverse_def catalog_def overlap_pomidor qualifies_def)


lemma kurczak_not_spaghetti: "as_dict kurczak_curry \<noteq> as_dict spaghetti"
  by (simp add: as_dict_def kurczak_curry_def spaghetti_def ascii_def)

text \<open>
  Claim C1 as stated fails for the request \<open>["czosnek", "czosnek"]\<close>: its normalised set
  has exactly one element and "Kurczak curry" has overlap 1 with it, yet the response is
  "Spaghetti aglio e olio" alone. The list has two entries, so the threshold is 2, no
  recipe passes, and the fallback returns the top-ranked recipe.
\<close>

theorem matcher_threshold_not_by_distinct_count:
  "card (set (normalise lower_latin [ascii ''czosnek'', ascii ''czosnek''])) = 1
   \<and> kurczak_curry \<in> set catalog
   \<and> overlap lower_latin (normalise lower_latin [ascii ''czosnek'', ascii ''czosnek'']) kurczak_curry = 1
   \<and> fst (recipes_from_ingredients lower_latin list_store [ascii ''czosnek'', ascii ''czosnek''] [])
       = Inr [as_dict spaghetti]
   \<and> as_dict kurczak_curry \<notin> set [as_dict spaghetti]"
proof -
  have "fst (recipes_from_ingredients lower_latin list_store [ascii ''czosnek'', ascii ''czosnek''] [])
       = Inr [as_dict spaghetti]"
    by (simp add: recipes_from_ingredients_ok normalise_examples match_czosnek)
  then show ?thesis
    by (simp add: normalise_examples overlap_czosnek catalog_def kurczak_not_spaghetti)
qed

text \<open>Claim C1 at concrete inputs.\<close>

theorem matcher_threshold_by_input_count_witness:
  "normalise lower_latin [ascii '' Makaron ''] = [ascii ''makaron'']
   \<and> length [ascii ''makaron''] = 1
   \<and> spaghetti \<in> set catalog
   \<and> 1 \<le> overlap lower_latin [ascii ''makaron''] spaghetti
   \<and> fst (recipes_from_ingredients lower_latin list_store [ascii '' Makaron ''] [])
       = Inr [\<lparr> title = title spaghetti, ingredients = ingredients spaghetti,
                steps = steps spaghetti \<rparr>]
   \<and> (\<exists>results.
           fst (recipes_from_ingredients lower_latin list_store [ascii '' Makaron ''] [])
             = Inr (map (\<lambda>r. \<lparr> title = title r, ingredients = ingredients r, steps = steps r \<rparr>)
                      results)
           \<and> set results \<subseteq> set catalog \<and> distinct results
           \<and> sorted_wrt (\<lambda>a b. overlap lower_latin [ascii ''makaron''] b \<le> overlap lower_latin [ascii ''makaron''] a) results
           \<and> (\<forall>r\<in>set catalog. 1 \<le> overlap lower_latin [ascii ''makaron''] r \<longrightarrow> r \<in> set results)
           \<and> ((\<exists>r\<in>set catalog. 1 \<le> overlap lower_latin [ascii ''makaron''] r) \<longrightarrow>
                (\<forall>r\<in>set results. 1 \<le> overlap lower_latin [ascii ''makaron''] r))
           \<and> ((\<forall>r\<in>set catalog. overlap lower_latin [ascii ''makaron''] r < 1) \<longrightarrow>
                (\<exists>top. results = [top]
                   \<and> (\<forall>r\<in>set catalog. overlap lower_latin [ascii ''makaron''] r \<le> overlap lower_latin [ascii ''makaron''] top))))
   \<and> normalise lower_latin [ascii ''Pomidor'', ascii ''oliwki '', ascii ''OLIWA'']
       = [ascii ''pomidor'', ascii ''oliwki'', ascii ''oliwa'']
   \<and> length [ascii ''pomidor'', ascii ''oliwki'', ascii ''oliwa''] = 3
   \<and> salatka_grecka \<in> set catalog
   \<and> 2 \<le> overlap lower_latin [ascii ''pomidor'', ascii ''oliwki'', ascii ''oliwa''] salatka_grecka
   \<and> fst (recipes_from_ingredients lower_latin list_store [ascii ''Pomidor'', ascii ''oliwki '', ascii ''OLIWA''] [])
       = Inr [\<lparr> title = title salatka_grecka, ingredients = ingredients salatka_grecka,
                steps = steps salatka_grecka \<rparr>]
   \<and> (\<exists>results.
           fst (recipes_from_ingredients lower_latin list_store [ascii ''Pomidor'', ascii ''oliwki '', ascii ''OLIWA''] [])
             = Inr (map (\<lambda>r. \<lparr> title = title r, ingredients = ingredients r, steps = steps r \<rparr>)
                      results)
           \<and> set results \<subseteq> set catalog \<and> distinct results
           \<and> sorted_wrt (\<lambda>a b. overlap lower_latin [ascii ''pomidor'', ascii ''oliwki'', ascii ''oliwa''] b \<le> overlap lower_latin [ascii ''pomidor'', ascii ''oliwki'', ascii ''oliwa''] a) results
           \<and> (\<forall>r\<in>set catalog. 2 \<le> overlap lower_latin [ascii ''pomidor'', ascii ''oliwki'', ascii ''oliwa''] r \<longrightarrow> r \<in> set results)
           \<and> ((\<exists>r\<in>set catalog. 2 \<le> overlap lower_latin [ascii ''pomidor'', ascii ''oliwki'', ascii ''oliwa''] r) \<longrightarrow>
                (\<forall>r\<in>set results. 2 \<le> overlap lower_latin [ascii ''pomidor'', ascii ''oliwki'', ascii ''oliwa''] r))
           \<and> ((\<forall>r\<in>set catalog. overlap lower_latin [ascii ''pomidor'', ascii ''oliwki'', ascii ''oliwa''] r < 2) \<longrightarrow>
                (\<exists>top. results = [top]
                   \<and> (\<forall>r\<in>set catalog. overlap lower_latin [ascii ''pomidor'', ascii ''oliwki'', ascii ''oliwa''] r \<le> overlap lower_latin [ascii ''pomidor'', ascii ''oliwki'', ascii ''oliwa''] top))))
   \<and> normalise lower_latin [ascii ''czosnek'', ascii ''czosnek''] = [ascii ''czosnek'', ascii ''czosnek'']
   \<and> length [ascii ''czosnek'', ascii ''czosnek''] = 2
   \<and> overlap lower_latin [ascii ''czosnek'', ascii ''czosnek''] spaghetti < 2
   \<and> overlap lower_latin [ascii ''czosnek'', ascii ''czosnek''] salatka_grecka < 2
   \<and> overlap lower_latin [ascii ''czosnek'', ascii ''czosnek''] kurczak_curry < 2
   \<and> (\<exists>results.
           fst (recipes_from_ingredients lower_latin list_store [ascii ''czosnek'', ascii ''czosnek''] [])
             = Inr (map (\<lambda>r. \<lparr> title = title r, ingredients = ingredients r, steps = steps r \<rparr>)
                      results)
           \<and> set results \<subseteq> set catalog \<and> distinct results
           \<and> sorted_wrt (\<lambda>a b. overlap lower_latin [ascii ''czosnek'', ascii ''czosnek''] b \<le> overlap lower_latin [ascii ''czosnek'', ascii ''czosnek''] a) results
           \<and> (\<forall>r\<in>set catalog. 2 \<le> overlap lower_latin [ascii ''czosnek'', ascii ''czosnek''] r \<longrightarrow> r \<in> set results)
           \<and> ((\<exists>r\<in>set catalog. 2 \<le> overlap lower_latin [ascii ''czosnek'', ascii ''czosnek''] r) \<longrightarrow>
                (\<forall>r\<in>set results. 2 \<le> overlap lower_latin [ascii ''czosnek'', ascii ''czosnek''] r))
           \<and> ((\<forall>r\<in>set catalog. overlap lower_latin [ascii ''czosnek'', ascii ''czosnek''] r < 2) \<longrightarrow>
                (\<exists>top. results = [top]
                   \<and> (\<forall>r\<in>set catalog. overlap lower_latin [ascii ''czosnek'', ascii ''czosnek''] r \<le> overlap lower_latin [ascii ''czosnek'', ascii ''czosnek''] top))))"
proof -
  have n1: "normalise lower_latin [ascii '' Makaron ''] = [ascii ''makaron'']"
    by (rule normalise_examples(1))
  have n2: "normalise lower_latin [ascii ''czosnek'', ascii ''czosnek''] = [ascii ''czosnek'', ascii ''czosnek'']"
    by (rule normalise_examples(2))
  have n3: "normalise lower_latin [ascii ''Pomidor'', ascii ''oliwki '', ascii ''OLIWA'']
       = [ascii ''pomidor'', ascii ''oliwki'', ascii ''oliwa'']"
    by (rule normalise_examples(4))
  have l1: "length [ascii ''makaron''] = 1" by simp
  have l2: "length [ascii ''czosnek'', ascii ''czosnek''] = 2" by simp
  have l3: "length [ascii ''pomidor'', ascii ''oliwki'', ascii ''oliwa''] = 3" by simp
  have c1: "spaghetti \<in> set catalog" by (simp add: catalog_def)
  have c3: "salatka_grecka \<in> set catalog" by (simp add: catalog_def)
  have o1: "1 \<le> overlap lower_latin [ascii ''makaron''] spaghetti"
    by (simp add: overlap_makaron)
  have o3: "2 \<le> overlap lower_latin [ascii ''pomidor'', ascii ''oliwki'', ascii ''oliwa''] salatka_grecka"
    by (simp add: overlap_pomidor)
  have z1: "overlap lower_latin [ascii ''czosnek'', ascii ''czosnek''] spaghetti < 2"
    by (simp add: overlap_czosnek)
  have z2: "overlap lower_latin [ascii ''czosnek'', ascii ''czosnek''] salatka_grecka < 2"
    by (simp add: overlap_czosnek)
  have z3: "overlap lower_latin [ascii ''czosnek'', ascii ''czosnek''] kurczak_curry < 2"
    by (simp add: overlap_czosnek)
  have e1: "fst (recipes_from_ingredients lower_latin list_store [ascii '' Makaron ''] [])
       = Inr [\<lparr> title = title spaghetti, ingredients = ingredients spaghetti,
                steps = steps spaghetti \<rparr>]"
    by (simp add: recipes_from_ingredients_ok normalise_examples match_makaron as_dict_def)
  have e3: "fst (recipes_from_ingredients lower_latin list_store [ascii ''Pomidor'', ascii ''oliwki '', ascii ''OLIWA''] [])
       = Inr [\<lparr> title = title salatka_grecka, ingredients = ingredients salatka_grecka,
                steps = steps salatka_grecka \<rparr>]"
    by (simp add: recipes_from_ingredients_ok normalise_examples match_pomidor as_dict_def)
  have t1: "(1::nat) = (if length [ascii ''makaron''] = 1 then 1 else 2)" by simp
  have t2: "(2::nat) = (if length [ascii ''czosnek'', ascii ''czosnek''] = 1 then 1 else 2)" by simp
  have t3: "(2::nat) = (if length [ascii ''pomidor'', ascii ''oliwki'', ascii ''oliwa''] = 1 then 1 else 2)" by simp
  have ne1: "[ascii ''makaron''] \<noteq> []" by simp
  have ne2: "[ascii ''czosnek'', ascii ''czosnek''] \<noteq> []" by simp
  have ne3: "[ascii ''pomidor'', ascii ''oliwki'', ascii ''oliwa''] \<noteq> []" by simp
  have a: "(\<exists>results.
           fst (recipes_from_ingredients lower_latin list_store [ascii '' Makaron ''] [])
             = Inr (map (\<lambda>r. \<lparr> title = title r, ingredients = ingredients r, steps = steps r \<rparr>)
                      results)
           \<and> set results \<subseteq> set catalog \<and> distinct results
           \<and> sorted_wrt (\<lambda>a b. overlap lower_latin [ascii ''makaron''] b \<le> overlap lower_latin [ascii ''makaron''] a) results
           \<and> (\<forall>r\<in>set catalog. 1 \<le> overlap lower_latin [ascii ''makaron''] r \<longrightarrow> r \<in> set results)
           \<and> ((\<exists>r\<in>set catalog. 1 \<le> overlap lower_latin [ascii ''makaron''] r) \<longrightarrow>
                (\<forall>r\<in>set results. 1 \<le> overlap lower_latin [ascii ''makaron''] r))
           \<and> ((\<forall>r\<in>set catalog. overlap lower_latin [ascii ''makaron''] r < 1) \<longrightarrow>
                (\<exists>top. results = [top]
                   \<and> (\<forall>r\<in>set catalog. overlap lower_latin [ascii ''makaron''] r \<le> overlap lower_latin [ascii ''makaron''] top))))"
    by (rule matcher_threshold_by_input_count [OF n1 ne1 t1])
  have b: "(\<exists>results.
           fst (recipes_from_ingredients lower_latin list_store [ascii ''czosnek'', ascii ''czosnek''] [])
             = Inr (map (\<lambda>r. \<lparr> title = title r, ingredients = ingredients r, steps = steps r \<rparr>)
                      results)
           \<and> set results \<subseteq> set catalog \<and> distinct results
           \<and> sorted_wrt (\<lambda>a b. overlap lower_latin [ascii ''czosnek'', ascii ''czosnek''] b \<le> overlap lower_latin [ascii ''czosnek'', ascii ''czosnek''] a) results
           \<and> (\<forall>r\<in>set catalog. 2 \<le> overlap lower_latin [ascii ''czosnek'', ascii ''czosnek''] r \<longrightarrow> r \<in> set results)
           \<and> ((\<exists>r\<in>set catalog. 2 \<le> overlap lower_latin [ascii ''czosnek'', ascii ''czosnek''] r) \<longrightarrow>
                (\<forall>r\<in>set results. 2 \<le> overlap lower_latin [ascii ''czosnek'', ascii ''czosnek''] r))
           \<and> ((\<forall>r\<in>set catalog. overlap lower_latin [ascii ''czosnek'', ascii ''czosnek''] r < 2) \<longrightarrow>
                (\<exists>top. results = [top]
                   \<and> (\<forall>r\<in>set catalog. overlap lower_latin [ascii ''czosnek'', ascii ''czosnek''] r \<le> overlap lower_latin [ascii ''czosnek'', ascii ''czosnek''] top))))"
    by (rule matcher_threshold_by_input_count [OF n2 ne2 t2])
  have c: "(\<exists>results.
           fst (recipes_from_ingredients lower_latin list_store [ascii ''Pomidor'', ascii ''oliwki '', ascii ''OLIWA''] [])
             = Inr (map (\<lambda>r. \<lparr> title = title r, ingredients = ingredients r, steps = steps r \<rparr>)
                      results)
           \<and> set results \<subseteq> set catalog \<and> distinct results
           \<and> sorted_wrt (\<lambda>a b. overlap lower_latin [ascii ''pomidor'', ascii ''oliwki'', ascii ''oliwa''] b \<le> overlap lower_latin [ascii ''pomidor'', ascii ''oliwki'', ascii ''oliwa''] a) results
           \<and> (\<forall>r\<in>set catalog. 2 \<le> overlap lower_latin [ascii ''pomidor'', ascii ''oliwki'', ascii ''oliwa''] r \<longrightarrow> r \<in> set results)
           \<and> ((\<exists>r\<in>set catalog. 2 \<le> overlap lower_latin [ascii ''pomidor'', ascii ''oliwki'', ascii ''oliwa''] r) \<longrightarrow>
                (\<forall>r\<in>set results. 2 \<le> overlap lower_latin [ascii ''pomidor'', ascii ''oliwki'', ascii ''oliwa''] r))
           \<and> ((\<forall>r\<in>set catalog. overlap lower_latin [ascii ''pomidor'', ascii ''oliwki'', ascii ''oliwa''] r < 2) \<longrightarrow>
                (\<exists>top. results = [top]
                   \<and> (\<forall>r\<in>set catalog. overlap lower_latin [ascii ''pomidor'', ascii ''oliwki'', ascii ''oliwa''] r \<le> overlap lower_latin [ascii ''pomidor'', ascii ''oliwki'', ascii ''oliwa''] top))))"
    by (rule matcher_threshold_by_input_count [OF n3 ne3 t3])
  show ?thesis
    by (intro conjI; (rule n1 l1 c1 o1 e1 a n3 l3 c3 o3 e3 c n2 l2 z1 z2 z3 b))
qed


text \<open>Claim C10 at concrete inputs.\<close>

theorem matcher_response_from_catalog_witness:
  "fst (recipes_from_ingredients lower_latin list_store [ascii '' Makaron ''] [])
     = Inr [\<lparr> title = title spaghetti, ingredients = ingredients spaghetti,
              steps = steps spaghetti \<rparr>]
   \<and> title spaghetti = ascii ''Spaghetti aglio e olio''
   \<and> length (ingredients spaghetti) = 6
   \<and> length (steps spaghetti) = 3
   \<and> (\<exists>results.
         [\<lparr> title = title spaghetti, ingredients = ingredients spaghetti, steps = steps spaghetti \<rparr>]
           = map (\<lambda>r. \<lparr> title = title r, ingredients = ingredients r, steps = steps r \<rparr>) results
         \<and> set results \<subseteq> set catalog \<and> distinct results
         \<and> distinct [\<lparr> title = title spaghetti, ingredients = ingredients spaghetti,
                         steps = steps spaghetti \<rparr>]
         \<and> 1 \<le> length [\<lparr> title = title spaghetti, ingredients = ingredients spaghetti,
                            steps = steps spaghetti \<rparr>]
         \<and> length [\<lparr> title = title spaghetti, ingredients = ingredients spaghetti,
                       steps = steps spaghetti \<rparr>] \<le> 3
         \<and> catalog = [spaghetti, salatka_grecka, kurczak_curry])"
proof -
  have r: "fst (recipes_from_ingredients lower_latin list_store [ascii '' Makaron ''] [])
     = Inr [\<lparr> title = title spaghetti, ingredients = ingredients spaghetti,
              steps = steps spaghetti \<rparr>]"
    by (simp add: recipes_from_ingredients_ok normalise_examples match_makaron as_dict_def)
  have f1: "title spaghetti = ascii ''Spaghetti aglio e olio''" by (simp add: spaghetti_def)
  have f2: "length (ingredients spaghetti) = 6" by (simp add: spaghetti_def)
  have f3: "length (steps spaghetti) = 3" by (simp add: spaghetti_def)
  note i = matcher_response_from_catalog [OF r]
  show ?thesis
    by (intro conjI; (rule r f1 f2 f3 i))
qed

text \<open>Claim C9 at concrete inputs.\<close>

theorem matcher_invariant_under_reordering_witness:
  "mset [ascii ''oliwa'', ascii ''Pomidor''] = mset [ascii ''Pomidor'', ascii ''oliwa'']
   \<and> list_all2 reordered catalog (map (\<lambda>r. r\<lparr> ingredients := rev (ingredients r) \<rparr>) catalog)
   \<and> list_all2 reordered
       (match_recipes lower_latin catalog (normalise lower_latin [ascii ''Pomidor'', ascii ''oliwa'']))
       (match_recipes lower_latin (map (\<lambda>r. r\<lparr> ingredients := rev (ingredients r) \<rparr>) catalog)
          (normalise lower_latin [ascii ''oliwa'', ascii ''Pomidor'']))
   \<and> fst (recipes_from_ingredients lower_latin list_store [ascii ''Pomidor'', ascii ''oliwa''] [])
       = fst (recipes_from_ingredients lower_latin failing_store [ascii ''oliwa'', ascii ''Pomidor''] [])"
proof -
  have p: "mset [ascii ''oliwa'', ascii ''Pomidor''] = mset [ascii ''Pomidor'', ascii ''oliwa'']"
    by simp
  have c: "list_all2 reordered catalog (map (\<lambda>r. r\<lparr> ingredients := rev (ingredients r) \<rparr>) catalog)"
    by (simp add: catalog_def reordered_def)
  show ?thesis
    using matcher_invariant_under_reordering [OF p c, of lower_latin list_store "[]" failing_store "[]"] p c by blast
qed

end
